theory Spec2Isabelle
  imports Main "HOL-Library.Word"
begin

section \<open>Data model\<close>

text \<open>
  A JavaScript string is a sequence of 16-bit code units. The text that a request
  carries (form fields, the identifier of the URL path) has this type, and so have
  the text fields of the stored documents. \<open>js\<close> writes a literal of the source as
  such a string.
\<close>

type_synonym jschar = "16 word"

type_synonym jsstring = "jschar list"

definition js :: "string \<Rightarrow> jsstring" where
  "js s = map of_char s"

text \<open>
  Identifiers are the store's ObjectIds. The handlers compare them, look them up and
  splice them into URL paths; an identifier is modelled by its rendering, the string
  of hexadecimal digits that \<^verbatim>\<open>${this._id}\<close> yields.
\<close>

type_synonym oid = string

text \<open>
  A JavaScript \<open>Date\<close>, seen through the three local-time getters that the
  model's virtual uses: \<open>getFullYear()\<close>, \<open>getMonth()\<close> (0 for January up to 11 for
  December) and \<open>getDate()\<close> (day of the month, 1 to 31).
\<close>

record jsdate =
  getFullYear :: int
  getMonth :: nat
  getDate :: nat

datatype status = Available | Maintenance | Loaned | Reserved

text \<open>\<open>BookInstanceSchema\<close> of \<open>models/bookinstance.js\<close>.\<close>

record bookinstance =
  bi_id :: oid
  bi_book :: oid
  imprint :: string
  bi_status :: status
  due_back :: jsdate

text \<open>
  Modelled from the spec: the schemas of \<open>models/author.js\<close>, \<open>models/genre.js\<close>
  and \<open>models/book.js\<close>, which the controllers require. Section 3 of the
  specification gives their fields: an Author has a first name, a family name and two
  optional dates; a Genre has a name; a Book has a title, one Author reference, a
  summary, an ISBN and zero or more Genre references.
\<close>

record author =
  author_id :: oid
  first_name :: jsstring
  family_name :: jsstring
  date_of_birth :: "jsdate option"
  date_of_death :: "jsdate option"

record genre =
  genre_id :: oid
  name :: jsstring

record book =
  book_id :: oid
  title :: jsstring
  author :: oid
  summary :: jsstring
  isbn :: jsstring
  genre :: "oid list"

text \<open>
  The Entity Store: four collections, each a list of documents in insertion order
  (the order in which a query without a sort returns them).
\<close>

record store =
  books :: "book list"
  authors :: "author list"
  genres :: "genre list"
  bookinstances :: "bookinstance list"

section \<open>Decimal rendering of numbers in template strings\<close>

definition digit_char :: "nat \<Rightarrow> char" where
  "digit_char d = ''0123456789'' ! d"

fun show_nat :: "nat \<Rightarrow> string" where
  "show_nat n = (if n < 10 then [digit_char n] else show_nat (n div 10) @ [digit_char (n mod 10)])"

definition show_int :: "int \<Rightarrow> string" where
  "show_int i = (if i < 0 then CHR ''-'' # show_nat (nat (- i)) else show_nat (nat i))"

section \<open>The virtuals of a book instance\<close>

text \<open>
  \<open>url\<close>: \<^verbatim>\<open>`/catalog/bookinstance/${this._id}`\<close>.
\<close>

definition bookinstance_url :: "bookinstance \<Rightarrow> string" where
  "bookinstance_url bi = ''/catalog/bookinstance/'' @ bi_id bi"

text \<open>
  \<open>due_back_yyyy_mm_dd\<close>. The source keeps \<open>month\<close> as a number unless it is
  below 10, in which case it becomes the string \<open>0\<close> followed by the number; the
  template string then renders year, month and day with hyphens in between.
\<close>

definition due_back_yyyy_mm_dd :: "bookinstance \<Rightarrow> string" where
  "due_back_yyyy_mm_dd bi =
     (let year = getFullYear (due_back bi);
          month = getMonth (due_back bi) + 1;
          month_text = (if month < 10 then ''0'' @ show_nat month else show_nat month);
          day = getDate (due_back bi)
      in show_int year @ ''-'' @ month_text @ ''-'' @ show_nat day)"

section \<open>Sanitisation and validation of form fields\<close>

text \<open>
  The validation chains of the handlers are built from three library steps:
  \<open>trim()\<close> strips whitespace at both ends, \<open>isLength({ min: 1 })\<close> records an error
  for the field when the value trimmed so far is empty, and \<open>escape()\<close> replaces the
  markup-significant characters by HTML entities. The sanitised value is written back
  to \<open>req.body\<close> whether or not the check failed. A field that the request does not
  carry reads as the empty string.

  \<open>is_space\<close> is the whitespace class of a JavaScript regular expression, which is
  what \<open>trim()\<close> strips: the ASCII blanks and line ends, the no-break space \<open>U+00A0\<close>,
  \<open>U+1680\<close>, \<open>U+2000\<close> to \<open>U+200A\<close>, the line and paragraph separators, \<open>U+202F\<close>,
  \<open>U+205F\<close>, \<open>U+3000\<close> and the byte order mark \<open>U+FEFF\<close>.
\<close>

definition is_space :: "jschar \<Rightarrow> bool" where
  "is_space c = ((0x09 \<le> c \<and> c \<le> 0x0D) \<or> c = 0x20 \<or> c = 0xA0 \<or> c = 0x1680
     \<or> (0x2000 \<le> c \<and> c \<le> 0x200A) \<or> c = 0x2028 \<or> c = 0x2029 \<or> c = 0x202F
     \<or> c = 0x205F \<or> c = 0x3000 \<or> c = 0xFEFF)"

definition trim :: "jsstring \<Rightarrow> jsstring" where
  "trim s = rev (dropWhile is_space (rev (dropWhile is_space s)))"

definition escape_char :: "jschar \<Rightarrow> jsstring" where
  "escape_char c =
     (if c = 0x26 then js ''&amp;''
      else if c = 0x22 then js ''&quot;''
      else if c = 0x27 then js ''&#x27;''
      else if c = 0x3C then js ''&lt;''
      else if c = 0x3E then js ''&gt;''
      else if c = 0x2F then js ''&#x2F;''
      else if c = 0x5C then js ''&#x5C;''
      else if c = 0x60 then js ''&#96;''
      else [c])"

definition escape :: "jsstring \<Rightarrow> jsstring" where
  "escape s = concat (map escape_char s)"

text \<open>An entry of \<open>errors.array()\<close>: the field it is about and its message.\<close>

record verror =
  param :: string
  msg :: string

text \<open>
  \<^verbatim>\<open>body(field, message).trim().isLength({ min: 1 }).escape()\<close>: the sanitised
  value, and the errors the chain records for the field.
\<close>

definition required_field :: "string \<Rightarrow> string \<Rightarrow> jsstring \<Rightarrow> jsstring \<times> verror list" where
  "required_field field message raw =
     (let trimmed = trim raw
      in (escape trimmed,
          if 1 \<le> length trimmed then [] else [\<lparr>param = field, msg = message\<rparr>]))"

text \<open>
  The shapes in which \<open>req.body.genre\<close> arrives, and the first middleware of the book
  handlers, which turns each of them into an array.
\<close>

datatype genre_field = Absent | Single jsstring | Many "jsstring list"

definition genre_to_array :: "genre_field \<Rightarrow> jsstring list" where
  "genre_to_array g = (case g of Absent \<Rightarrow> [] | Single v \<Rightarrow> [v] | Many vs \<Rightarrow> vs)"

record book_body =
  body_title :: jsstring
  body_author :: jsstring
  body_summary :: jsstring
  body_isbn :: jsstring
  body_genre :: genre_field

section \<open>Documents\<close>

text \<open>
  Modelled from the spec: the types that the schemas of \<open>models/genre.js\<close> and
  \<open>models/book.js\<close> give to \<open>_id\<close>, \<open>author\<close> and \<open>genre\<close>. Section 3 of the specification
  makes them an identifier, a reference to an Author and a set of references to
  Genres, so a string handed to one of these paths, or to a query on one of them, is
  cast to an identifier first. Which strings are identifiers is left open: the
  handlers take the cast as the parameter \<open>cast\<close>, which yields \<open>None\<close> for a string
  that is not an identifier and the rendering of the identifier otherwise.
\<close>

type_synonym oid_cast = "jsstring \<Rightarrow> oid option"

text \<open>
  The cast of an array of references: it fails as a whole when one element fails.
\<close>

definition cast_array :: "oid_cast \<Rightarrow> jsstring list \<Rightarrow> oid list option" where
  "cast_array cast vs = those (map cast vs)"

text \<open>
  The documents that \<open>new Genre(...)\<close> and \<open>new Book(...)\<close> build. A value that does
  not cast is not set: the path keeps its default (nothing for \<open>author\<close>, the empty
  array for \<open>genre\<close>) and the document records the path in its validation errors.
  \<open>given_id\<close> is the \<open>_id\<close> of the document: the identifier the constructor allocates,
  or the one the handler passes when it casts.
\<close>

record genre_doc =
  gd_id :: "oid option"
  gd_name :: jsstring

record book_doc =
  bd_id :: "oid option"
  bd_title :: jsstring
  bd_author :: "oid option"
  bd_summary :: jsstring
  bd_isbn :: jsstring
  bd_genre :: "oid list"
  bd_cast_errors :: "string list"

definition new_Book ::
  "oid_cast \<Rightarrow> oid option \<Rightarrow> jsstring \<Rightarrow> jsstring \<Rightarrow> jsstring \<Rightarrow> jsstring \<Rightarrow> jsstring list
     \<Rightarrow> book_doc" where
  "new_Book cast given_id t a su i g =
     \<lparr>bd_id = given_id, bd_title = t, bd_author = cast a, bd_summary = su, bd_isbn = i,
      bd_genre = (case cast_array cast g of None \<Rightarrow> [] | Some ids \<Rightarrow> ids),
      bd_cast_errors = (if cast a = None then [''author''] else [])
                       @ (if cast_array cast g = None then [''genre''] else [])\<rparr>"

text \<open>
  The \<open>_id\<close> of a document built with \<open>_id: req.params.id\<close>: the identifier the string
  casts to, and otherwise \<open>unset_id\<close>, whatever the constructor leaves in the path then
  (an identifier of its own, or nothing).
\<close>

definition given_id :: "oid_cast \<Rightarrow> oid option \<Rightarrow> jsstring \<Rightarrow> oid option" where
  "given_id cast unset_id params_id =
     (case cast params_id of Some i \<Rightarrow> Some i | None \<Rightarrow> unset_id)"

section \<open>Store operations\<close>

text \<open>
  The operations of the document store that the handlers call, as functions of the
  collection they read or write. A query whose identifier does not cast hands its
  callback a cast error, a save of a document with validation errors hands it a
  validation error, and an insert whose identifier is already in the collection a
  duplicate key error; a failure of the connection is not a property of a store state
  and has no counterpart here. \<open>findById\<close> and \<open>findOne\<close> return the first match in
  insertion order, and an update or a removal by identifier acts on that first match.
\<close>

datatype error = Duplicate_key oid | Cast_error | Validation_error

datatype js_exception = TypeError

definition findById :: "('a \<Rightarrow> oid) \<Rightarrow> oid \<Rightarrow> 'a list \<Rightarrow> 'a option" where
  "findById key i docs = List.find (\<lambda>d. key d = i) docs"

definition save :: "('a \<Rightarrow> oid) \<Rightarrow> 'a \<Rightarrow> 'a list \<Rightarrow> error + 'a list" where
  "save key d docs =
     (if key d \<in> set (map key docs) then Inl (Duplicate_key (key d)) else Inr (docs @ [d]))"

text \<open>
  The validation that \<open>save\<close> runs on a book document first: it passes when no path
  failed to cast and the required reference is there, and yields the book to insert.
\<close>

definition validated_book :: "book_doc \<Rightarrow> book option" where
  "validated_book d =
     (if bd_cast_errors d \<noteq> [] then None
      else (case (bd_id d, bd_author d) of
              (Some i, Some a) \<Rightarrow>
                Some \<lparr>book_id = i, title = bd_title d, author = a, summary = bd_summary d,
                      isbn = bd_isbn d, genre = bd_genre d\<rparr>
            | _ \<Rightarrow> None))"

fun update_first :: "('a \<Rightarrow> bool) \<Rightarrow> ('a \<Rightarrow> 'a) \<Rightarrow> 'a list \<Rightarrow> 'a list" where
  "update_first p f [] = []"
| "update_first p f (d # docs) = (if p d then f d # docs else d # update_first p f docs)"

fun remove_first :: "('a \<Rightarrow> bool) \<Rightarrow> 'a list \<Rightarrow> 'a list" where
  "remove_first p [] = []"
| "remove_first p (d # docs) = (if p d then docs else d # remove_first p docs)"

text \<open>
  \<open>findByIdAndUpdate(id, doc, {}, callback)\<close> sets the fields that \<open>doc\<close> has on the
  stored document with that identifier and hands the callback the document as it was
  before the update, or \<open>null\<close> when there is none.
\<close>

definition findByIdAndUpdate ::
  "('a \<Rightarrow> oid) \<Rightarrow> oid \<Rightarrow> ('a \<Rightarrow> 'a) \<Rightarrow> 'a list \<Rightarrow> 'a option \<times> 'a list" where
  "findByIdAndUpdate key i set_fields docs =
     (findById key i docs, update_first (\<lambda>d. key d = i) set_fields docs)"

text \<open>
  The fields that a book document sets in an update: the text fields and the genre
  array always, the author when the document has one.
\<close>

definition set_book_fields :: "book_doc \<Rightarrow> book \<Rightarrow> book" where
  "set_book_fields doc d =
     d\<lparr>title := bd_title doc,
       author := (case bd_author doc of None \<Rightarrow> author d | Some a \<Rightarrow> a),
       summary := bd_summary doc, isbn := bd_isbn doc, genre := bd_genre doc\<rparr>"

definition findByIdAndRemove :: "('a \<Rightarrow> oid) \<Rightarrow> oid \<Rightarrow> 'a list \<Rightarrow> 'a list" where
  "findByIdAndRemove key i docs = remove_first (\<lambda>d. key d = i) docs"

text \<open>\<open>Book.find({ genre: id })\<close>: the books whose genre array holds the identifier.\<close>

definition books_with_genre :: "oid \<Rightarrow> book list \<Rightarrow> book list" where
  "books_with_genre i bs = filter (\<lambda>b. i \<in> set (genre b)) bs"

text \<open>
  \<open>.populate('author').populate('genre')\<close>: the references of a book replaced by the
  documents they resolve to.
\<close>

record populated_book =
  pb_id :: oid
  pb_title :: jsstring
  pb_author :: "author option"
  pb_summary :: jsstring
  pb_isbn :: jsstring
  pb_genre :: "genre list"

definition populate :: "store \<Rightarrow> book \<Rightarrow> populated_book" where
  "populate s b =
     \<lparr>pb_id = book_id b, pb_title = title b,
      pb_author = findById author_id (author b) (authors s),
      pb_summary = summary b, pb_isbn = isbn b,
      pb_genre = List.map_filter (\<lambda>i. findById genre_id i (genres s)) (genre b)\<rparr>"

section \<open>Responses\<close>

text \<open>
  Modelled from the spec: the \<open>url\<close> virtuals of the Genre and Book schemas, the
  identifier-derived paths of the detail routes \<open>/catalog/genre/:id\<close> and
  \<open>/catalog/book/:id\<close> of section 6.
\<close>

definition genre_url :: "oid \<Rightarrow> string" where
  "genre_url i = ''/catalog/genre/'' @ i"

definition book_url :: "oid \<Rightarrow> string" where
  "book_url i = ''/catalog/book/'' @ i"

record counts =
  book_count :: nat
  book_instance_count :: nat
  book_instance_available_count :: nat
  author_count :: nat
  genre_count :: nat

text \<open>A genre as handed to the book form, with the \<open>checked\<close> property the handler sets.\<close>

record genre_item =
  item :: genre
  checked :: "string option"

text \<open>The locals of each view: the title first, then the other properties in source order.\<close>

datatype locals =
    Index_locals string "error option" counts
  | Book_form_locals string "author list" "genre_item list" book_doc "verror list"
  | Genre_form_locals string genre_doc "verror list"
  | Genre_delete_locals string "genre option" "populated_book list"

text \<open>
  What a handler does to the response: \<open>res.render\<close>, \<open>res.redirect\<close>, \<open>next(err)\<close>, or
  an exception thrown inside the callback. A handler yields the calls it makes, in
  order.
\<close>

datatype response =
    Render string locals
  | Redirect string
  | Next_error error
  | Uncaught js_exception

section \<open>Home summary\<close>

definition index :: "store \<Rightarrow> store \<times> response list" where
  "index s =
     (s, [Render ''index'' (Index_locals ''Local Library Home'' None
        \<lparr>book_count = length (books s),
         book_instance_count = length (bookinstances s),
         book_instance_available_count =
           length (filter (\<lambda>bi. bi_status bi = Available) (bookinstances s)),
         author_count = length (authors s),
         genre_count = length (genres s)\<rparr>)])"

section \<open>Genre handlers\<close>

text \<open>
  \<open>genre_create_post\<close>. \<open>new_id\<close> is the identifier that \<open>new Genre(...)\<close> allocates
  for the document it builds; \<open>raw_name\<close> is \<open>req.body.name\<close> as submitted.
\<close>

definition genre_create_post :: "oid \<Rightarrow> jsstring \<Rightarrow> store \<Rightarrow> store \<times> response list" where
  "genre_create_post new_id raw_name s =
     (let (body_name, errors) = required_field ''name'' ''Genre name required'' raw_name;
          genre_doc = \<lparr>gd_id = Some new_id, gd_name = body_name\<rparr>
      in if errors \<noteq> [] then
           (s, [Render ''genre_form'' (Genre_form_locals ''Create Genre'' genre_doc errors)])
         else
           (case List.find (\<lambda>g. name g = body_name) (genres s) of
              Some found_genre \<Rightarrow> (s, [Redirect (genre_url (genre_id found_genre))])
            | None \<Rightarrow>
                (case save genre_id \<lparr>genre_id = new_id, name = body_name\<rparr> (genres s) of
                   Inl err \<Rightarrow> (s, [Next_error err])
                 | Inr docs \<Rightarrow> (s\<lparr>genres := docs\<rparr>, [Redirect (genre_url new_id)]))))"

text \<open>
  \<open>genre_delete_get\<close>. Both queries cast \<open>req.params.id\<close>. The branch for a missing
  genre calls \<open>res.redirect\<close> and does not return, so control reaches the \<open>res.render\<close>
  below it.
\<close>

definition genre_delete_get :: "oid_cast \<Rightarrow> jsstring \<Rightarrow> store \<Rightarrow> store \<times> response list" where
  "genre_delete_get cast params_id s =
     (case cast params_id of
        None \<Rightarrow> (s, [Next_error Cast_error])
      | Some i \<Rightarrow>
          (let results_genre = findById genre_id i (genres s);
               results_books = map (populate s) (books_with_genre i (books s))
           in (s, (if results_genre = None then [Redirect ''/catalog/genres''] else [])
                  @ [Render ''genre_delete''
                       (Genre_delete_locals ''Delete Genre'' results_genre results_books)])))"

text \<open>
  \<open>genre_delete_post\<close>. The two queries use \<open>req.params.id\<close>; the removal uses
  \<open>req.body.genreid\<close>.
\<close>

definition genre_delete_post ::
  "oid_cast \<Rightarrow> jsstring \<Rightarrow> jsstring \<Rightarrow> store \<Rightarrow> store \<times> response list" where
  "genre_delete_post cast params_id body_genreid s =
     (case cast params_id of
        None \<Rightarrow> (s, [Next_error Cast_error])
      | Some i \<Rightarrow>
          (let results_genre = findById genre_id i (genres s);
               results_books = map (populate s) (books_with_genre i (books s))
           in if length results_books > 0 then
                (s, [Render ''genre_delete''
                       (Genre_delete_locals ''Delete Genre'' results_genre results_books)])
              else
                (case cast body_genreid of
                   None \<Rightarrow> (s, [Next_error Cast_error])
                 | Some j \<Rightarrow>
                     (s\<lparr>genres := findByIdAndRemove genre_id j (genres s)\<rparr>,
                      [Redirect ''/catalog/genres'']))))"

text \<open>
  \<open>genre_update_post\<close>. The document is built with \<open>_id: req.params.id\<close>; the
  callback of the update ignores the document it is handed and redirects to the URL of
  the one built here.
\<close>

definition genre_update_post ::
  "oid_cast \<Rightarrow> oid option \<Rightarrow> jsstring \<Rightarrow> jsstring \<Rightarrow> store \<Rightarrow> store \<times> response list" where
  "genre_update_post cast unset_id params_id raw_name s =
     (let (body_name, errors) = required_field ''name'' ''Genre name required'' raw_name;
          genre_doc = \<lparr>gd_id = given_id cast unset_id params_id, gd_name = body_name\<rparr>
      in if errors \<noteq> [] then
           (s, [Render ''genre_form'' (Genre_form_locals ''Update Genre'' genre_doc errors)])
         else
           (case cast params_id of
              None \<Rightarrow> (s, [Next_error Cast_error])
            | Some i \<Rightarrow>
                (let (found, docs) =
                       findByIdAndUpdate genre_id i (\<lambda>d. d\<lparr>name := gd_name genre_doc\<rparr>) (genres s)
                 in (s\<lparr>genres := docs\<rparr>, [Redirect (genre_url i)]))))"

section \<open>Book handlers\<close>

text \<open>
  \<open>Array.prototype.indexOf\<close> as the store's array type provides it for identifiers:
  the position of the first element equal to the argument, or -1.
\<close>

fun indexOf :: "'a list \<Rightarrow> 'a \<Rightarrow> int" where
  "indexOf [] v = - 1"
| "indexOf (x # xs) v = (if x = v then 0 else (let k = indexOf xs v in if k = - 1 then - 1 else k + 1))"

text \<open>
  The loop that marks the selected genres: \<open>i\<close> runs over the positions of
  \<open>results.genres\<close>, and the document at \<open>i\<close> gets \<open>checked = 'true'\<close> when its identifier
  occurs in \<open>book.genre\<close>.
\<close>

function mark_checked :: "oid list \<Rightarrow> genre_item list \<Rightarrow> nat \<Rightarrow> genre_item list" where
  "mark_checked book_genre results_genres i =
     (if i < length results_genres then
        mark_checked book_genre
          (if indexOf book_genre (genre_id (item (results_genres ! i))) > - 1
           then results_genres[i := (results_genres ! i)\<lparr>checked := Some ''true''\<rparr>]
           else results_genres)
          (i + 1)
      else results_genres)"
  by pat_completeness auto
termination
  by (relation "measure (\<lambda>(book_genre, results_genres, i). length results_genres - i)") auto

declare mark_checked.simps [simp del]

text \<open>\<open>Genre.find(callback)\<close> as the form receives it: no document is marked yet.\<close>

definition find_genres :: "store \<Rightarrow> genre_item list" where
  "find_genres s = map (\<lambda>g. \<lparr>item = g, checked = None\<rparr>) (genres s)"

text \<open>
  The validation chains of the two book handlers differ only in their messages;
  \<open>validate_book\<close> takes the four messages, and yields the sanitised body together with
  \<open>errors.array()\<close>, the errors in the order of the chains.
\<close>

definition validate_book ::
  "string \<Rightarrow> string \<Rightarrow> string \<Rightarrow> string \<Rightarrow> book_body
     \<Rightarrow> (jsstring \<times> jsstring \<times> jsstring \<times> jsstring \<times> jsstring list) \<times> verror list" where
  "validate_book m_title m_author m_summary m_isbn body =
     (let genre_array = genre_to_array (body_genre body);
          (t, e_title) = required_field ''title'' m_title (body_title body);
          (a, e_author) = required_field ''author'' m_author (body_author body);
          (su, e_summary) = required_field ''summary'' m_summary (body_summary body);
          (i, e_isbn) = required_field ''isbn'' m_isbn (body_isbn body)
      in ((t, a, su, i, map escape genre_array), e_title @ e_author @ e_summary @ e_isbn))"

text \<open>
  \<open>book_create_post\<close>. \<open>new_id\<close> is the identifier that \<open>new Book(...)\<close> allocates.
\<close>

definition book_create_post ::
  "oid_cast \<Rightarrow> oid \<Rightarrow> book_body \<Rightarrow> store \<Rightarrow> store \<times> response list" where
  "book_create_post cast new_id body s =
     (let ((t, a, su, i, g), errors) =
            validate_book ''Title must not be empty.'' ''Author must not be empty.''
              ''Summary must not be empty'' ''ISBN must not be empty'' body;
          book_doc = new_Book cast (Some new_id) t a su i g
      in if errors \<noteq> [] then
           (s, [Render ''book_form''
                  (Book_form_locals ''Create Book'' (authors s)
                     (mark_checked (bd_genre book_doc) (find_genres s) 0) book_doc errors)])
         else
           (case validated_book book_doc of
              None \<Rightarrow> (s, [Next_error Validation_error])
            | Some b \<Rightarrow>
                (case save book_id b (books s) of
                   Inl err \<Rightarrow> (s, [Next_error err])
                 | Inr docs \<Rightarrow> (s\<lparr>books := docs\<rparr>, [Redirect (book_url (book_id b))]))))"

text \<open>
  \<open>book_update_post\<close>. The document is built with \<open>_id: req.params.id\<close>. The
  callback of the update reads \<open>url\<close> of the document it is handed, which is \<open>null\<close>
  when no book has that identifier.
\<close>

definition book_update_post ::
  "oid_cast \<Rightarrow> oid option \<Rightarrow> jsstring \<Rightarrow> book_body \<Rightarrow> store \<Rightarrow> store \<times> response list" where
  "book_update_post cast unset_id params_id body s =
     (let ((t, a, su, i, g), errors) =
            validate_book ''Title must not be empty'' ''Author must not be empty''
              ''Summary must not be empty'' ''ISBN must not be empty'' body;
          book_doc = new_Book cast (given_id cast unset_id params_id) t a su i g
      in if errors \<noteq> [] then
           (s, [Render ''book_form''
                  (Book_form_locals ''Update Book'' (authors s)
                     (mark_checked (bd_genre book_doc) (find_genres s) 0) book_doc errors)])
         else
           (case cast params_id of
              None \<Rightarrow> (s, [Next_error Cast_error])
            | Some k \<Rightarrow>
                (let (found, docs) =
                       findByIdAndUpdate book_id k (set_book_fields book_doc) (books s)
                 in (case found of
                       None \<Rightarrow> (s\<lparr>books := docs\<rparr>, [Uncaught TypeError])
                     | Some old_book \<Rightarrow>
                         (s\<lparr>books := docs\<rparr>, [Redirect (book_url (book_id old_book))])))))"

section \<open>Vocabulary of the properties\<close>

text \<open>
  The value a required field has after its chain has run, the errors the chain leaves
  for it, and the document a book handler builds from a submitted body. These name
  what the properties below say about the handlers; the handlers themselves do not use
  them.
\<close>

definition sanitized :: "jsstring \<Rightarrow> jsstring" where
  "sanitized raw = escape (trim raw)"

definition field_errors :: "string \<Rightarrow> string \<Rightarrow> jsstring \<Rightarrow> verror list" where
  "field_errors field message raw =
     (if trim raw = [] then [\<lparr>param = field, msg = message\<rparr>] else [])"

definition selection :: "book_body \<Rightarrow> jsstring list" where
  "selection body = map escape (genre_to_array (body_genre body))"

definition submitted_book :: "oid_cast \<Rightarrow> oid option \<Rightarrow> book_body \<Rightarrow> book_doc" where
  "submitted_book cast doc_id body =
     new_Book cast doc_id (sanitized (body_title body)) (sanitized (body_author body))
       (sanitized (body_summary body)) (sanitized (body_isbn body)) (selection body)"

definition create_errors :: "book_body \<Rightarrow> verror list" where
  "create_errors body =
     field_errors ''title'' ''Title must not be empty.'' (body_title body)
     @ field_errors ''author'' ''Author must not be empty.'' (body_author body)
     @ field_errors ''summary'' ''Summary must not be empty'' (body_summary body)
     @ field_errors ''isbn'' ''ISBN must not be empty'' (body_isbn body)"

definition update_errors :: "book_body \<Rightarrow> verror list" where
  "update_errors body =
     field_errors ''title'' ''Title must not be empty'' (body_title body)
     @ field_errors ''author'' ''Author must not be empty'' (body_author body)
     @ field_errors ''summary'' ''Summary must not be empty'' (body_summary body)
     @ field_errors ''isbn'' ''ISBN must not be empty'' (body_isbn body)"

text \<open>A genre of the reference list, marked when its identifier is among the selected ones.\<close>

definition marked :: "oid list \<Rightarrow> genre_item \<Rightarrow> genre_item" where
  "marked ids g =
     (if genre_id (item g) \<in> set ids then g\<lparr>checked := Some ''true''\<rparr> else g)"

text \<open>
  A cast to run the handlers with: a string of 24 hexadecimal digits is the
  identifier it spells, rendered in lower case. It is used below on such strings and
  on \<open>zzz\<close>, which is not an identifier.
\<close>

definition hex_digit :: "jschar \<Rightarrow> char option" where
  "hex_digit c =
     (if 0x30 \<le> c \<and> c \<le> 0x39 then Some (''0123456789'' ! unat (c - 0x30))
      else if 0x61 \<le> c \<and> c \<le> 0x66 then Some (''abcdef'' ! unat (c - 0x61))
      else if 0x41 \<le> c \<and> c \<le> 0x46 then Some (''abcdef'' ! unat (c - 0x41))
      else None)"

definition cast_hex24 :: oid_cast where
  "cast_hex24 v = (if length v = 24 then those (map hex_digit v) else None)"

text \<open>
  A small catalogue used to run the handlers: two genres, one author, and one book
  that references the first genre. The identifiers are written as the store renders
  them, 24 hexadecimal digits; \<open>scifi_id\<close>, \<open>second_book_id\<close>, \<open>unused_genre_id\<close> and
  \<open>unused_book_id\<close> are identifiers of no document of the catalogue.
\<close>

definition fantasy_id :: oid where
  "fantasy_id = ''64a1f0c2e4b0a1b2c3d4e501''"

definition poetry_id :: oid where
  "poetry_id = ''64a1f0c2e4b0a1b2c3d4e502''"

definition scifi_id :: oid where
  "scifi_id = ''64a1f0c2e4b0a1b2c3d4e503''"

definition unused_genre_id :: oid where
  "unused_genre_id = ''64a1f0c2e4b0a1b2c3d4e509''"

definition dune_id :: oid where
  "dune_id = ''64a1f0c2e4b0a1b2c3d4e601''"

definition second_book_id :: oid where
  "second_book_id = ''64a1f0c2e4b0a1b2c3d4e602''"

definition unused_book_id :: oid where
  "unused_book_id = ''64a1f0c2e4b0a1b2c3d4e607''"

definition herbert_id :: oid where
  "herbert_id = ''64a1f0c2e4b0a1b2c3d4e701''"

definition library :: store where
  "library =
     \<lparr>books = [\<lparr>book_id = dune_id, title = js ''Dune'', author = herbert_id,
                 summary = js ''Sand'', isbn = js ''9780441013593'', genre = [fantasy_id]\<rparr>],
      authors = [\<lparr>author_id = herbert_id, first_name = js ''Frank'', family_name = js ''Herbert'',
                   date_of_birth = None, date_of_death = None\<rparr>],
      genres = [\<lparr>genre_id = fantasy_id, name = js ''Fantasy''\<rparr>,
                \<lparr>genre_id = poetry_id, name = js ''Poetry''\<rparr>],
      bookinstances = []\<rparr>"

definition dune_body :: book_body where
  "dune_body =
     \<lparr>body_title = js ''Dune'', body_author = js herbert_id, body_summary = js ''Sand'',
      body_isbn = js ''9780441013593'', body_genre = Single (js fantasy_id)\<rparr>"

section \<open>Running the handlers on the catalogue\<close>

text \<open>The definitions that a run of a handler on \<open>library\<close> unfolds.\<close>

lemmas run_defs = library_def dune_body_def trim_def is_space_def sanitized_def escape_def
  escape_char_def genre_to_array_def fantasy_id_def poetry_id_def scifi_id_def unused_genre_id_def
  dune_id_def second_book_id_def unused_book_id_def herbert_id_def js_def cast_hex24_def
  hex_digit_def selection_def

section \<open>The date string of a book instance\<close>

lemma digit_char_zero_iff: "d < 10 \<Longrightarrow> digit_char d = CHR ''0'' \<longleftrightarrow> d = 0"
proof -
  assume "d < 10"
  then have "d = 0 \<or> d = 1 \<or> d = 2 \<or> d = 3 \<or> d = 4 \<or> d = 5 \<or> d = 6
    \<or> d = 7 \<or> d = 8 \<or> d = 9"
    by arith
  then show ?thesis
    by (elim disjE) (simp_all add: digit_char_def)
qed

lemma show_nat_digit: "n < 10 \<Longrightarrow> show_nat n = [digit_char n]"
  by simp

lemma length_show_nat_two: "10 \<le> n \<Longrightarrow> n < 100 \<Longrightarrow> length (show_nat n) = 2"
  by (subst show_nat.simps) (simp add: show_nat_digit)

lemma show_nat_not_Nil: "show_nat n \<noteq> []"
  by (subst show_nat.simps) simp

lemma hd_show_nat: "0 < n \<Longrightarrow> hd (show_nat n) \<noteq> CHR ''0''"
proof (induction n rule: show_nat.induct)
  case (1 n)
  show ?case
  proof (cases "n < 10")
    case True
    with 1(2) show ?thesis by (simp add: digit_char_zero_iff)
  next
    case False
    then have "0 < n div 10" by simp
    with 1(1) False have "hd (show_nat (n div 10)) \<noteq> CHR ''0''" by simp
    then show ?thesis
      using False show_nat_not_Nil [of "n div 10"] by (subst show_nat.simps) simp
  qed
qed

text \<open>
  Claim C9. For a book instance whose due date has the year \<open>y\<close>, the month index \<open>m\<close>
  (so the month number is \<open>m + 1\<close>) and the day \<open>d\<close>, the date string is the year, the
  month and the day joined by hyphens. The month part has two characters: a \<open>0\<close> and
  the digit when the month is under 10, the number as it is otherwise. The day part is
  the number as it is, never with a leading \<open>0\<close>, so a day under 10 is a single digit.
\<close>

theorem due_back_yyyy_mm_dd_format:
  assumes "due_back bi = \<lparr>getFullYear = y, getMonth = m, getDate = d\<rparr>"
    and "m < 12" and "1 \<le> d"
  shows "\<exists>month_text.
           due_back_yyyy_mm_dd bi = show_int y @ ''-'' @ month_text @ ''-'' @ show_nat d
         \<and> length month_text = 2
         \<and> (m + 1 < 10 \<longrightarrow> month_text = [CHR ''0'', digit_char (m + 1)])
         \<and> (10 \<le> m + 1 \<longrightarrow> month_text = show_nat (m + 1))
         \<and> hd (show_nat d) \<noteq> CHR ''0''
         \<and> (d < 10 \<longrightarrow> show_nat d = [digit_char d])"
proof (cases "m + 1 < 10")
  case True
  have "due_back_yyyy_mm_dd bi
      = show_int y @ ''-'' @ [CHR ''0'', digit_char (m + 1)] @ ''-'' @ show_nat d"
    using assms(1) True by (simp add: due_back_yyyy_mm_dd_def)
  moreover have "hd (show_nat d) \<noteq> CHR ''0''"
    using assms(3) by (intro hd_show_nat) simp
  ultimately show ?thesis
    using True by (intro exI [of _ "[CHR ''0'', digit_char (m + 1)]"]) simp
next
  case False
  have "due_back_yyyy_mm_dd bi = show_int y @ ''-'' @ show_nat (m + 1) @ ''-'' @ show_nat d"
    using assms(1) False by (simp add: due_back_yyyy_mm_dd_def)
  moreover have "length (show_nat (m + 1)) = 2"
    using False assms(2) by (intro length_show_nat_two) simp_all
  moreover have "hd (show_nat d) \<noteq> CHR ''0''"
    using assms(3) by (intro hd_show_nat) simp
  ultimately show ?thesis
    using False by (intro exI [of _ "show_nat (m + 1)"]) simp
qed

theorem due_back_yyyy_mm_dd_format_witness:
  "due_back_yyyy_mm_dd
     \<lparr>bi_id = ''64a1f0c2e4b0a1b2c3d4e801'', bi_book = dune_id, imprint = ''Ace, 1990'', bi_status = Loaned,
      due_back = \<lparr>getFullYear = 2021, getMonth = 2, getDate = 7\<rparr>\<rparr> = ''2021-03-7''
   \<and> due_back_yyyy_mm_dd
     \<lparr>bi_id = ''64a1f0c2e4b0a1b2c3d4e802'', bi_book = dune_id, imprint = ''Ace, 1990'', bi_status = Available,
      due_back = \<lparr>getFullYear = 1999, getMonth = 11, getDate = 25\<rparr>\<rparr> = ''1999-12-25''"
proof -
  let ?a = "\<lparr>bi_id = ''64a1f0c2e4b0a1b2c3d4e801'', bi_book = dune_id, imprint = ''Ace, 1990'', bi_status = Loaned,
      due_back = \<lparr>getFullYear = 2021, getMonth = 2, getDate = 7\<rparr>\<rparr>"
  let ?b = "\<lparr>bi_id = ''64a1f0c2e4b0a1b2c3d4e802'', bi_book = dune_id, imprint = ''Ace, 1990'', bi_status = Available,
      due_back = \<lparr>getFullYear = 1999, getMonth = 11, getDate = 25\<rparr>\<rparr>"
  obtain ma where "due_back_yyyy_mm_dd ?a = show_int 2021 @ ''-'' @ ma @ ''-'' @ show_nat 7"
    and "ma = [CHR ''0'', digit_char (2 + 1)]"
    using due_back_yyyy_mm_dd_format [of ?a 2021 2 7] by auto
  moreover obtain mb where "due_back_yyyy_mm_dd ?b = show_int 1999 @ ''-'' @ mb @ ''-'' @ show_nat 25"
    and "mb = show_nat (11 + 1)"
    using due_back_yyyy_mm_dd_format [of ?b 1999 11 25] by auto
  ultimately show ?thesis
    by (simp add: show_int_def digit_char_def)
qed

section \<open>The home summary\<close>

text \<open>
  Claim C8. In every store state the home summary renders the \<open>index\<close> view once, with
  no error and with five counts: the numbers of books, of book instances, of book
  instances whose status is Available, of authors and of genres. The count of
  available instances is at most the count of all instances.
\<close>

theorem index_counts:
  "\<exists>d. index s = (s, [Render ''index'' (Index_locals ''Local Library Home'' None d)])
     \<and> book_count d = length (books s)
     \<and> book_instance_count d = length (bookinstances s)
     \<and> book_instance_available_count d
          = length (filter (\<lambda>bi. bi_status bi = Available) (bookinstances s))
     \<and> author_count d = length (authors s)
     \<and> genre_count d = length (genres s)
     \<and> book_instance_available_count d \<le> book_instance_count d"
  by (simp add: index_def)

section \<open>What the handlers do with a body that fails or passes validation\<close>

lemma required_field_eq:
  "required_field field message raw = (sanitized raw, field_errors field message raw)"
  by (simp add: required_field_def sanitized_def field_errors_def Let_def Suc_le_eq)

lemma validate_book_create:
  "validate_book ''Title must not be empty.'' ''Author must not be empty.''
     ''Summary must not be empty'' ''ISBN must not be empty'' body
   = ((sanitized (body_title body), sanitized (body_author body), sanitized (body_summary body),
       sanitized (body_isbn body), selection body),
      create_errors body)"
  by (simp add: validate_book_def required_field_eq create_errors_def selection_def Let_def)

lemma validate_book_update:
  "validate_book ''Title must not be empty'' ''Author must not be empty''
     ''Summary must not be empty'' ''ISBN must not be empty'' body
   = ((sanitized (body_title body), sanitized (body_author body), sanitized (body_summary body),
       sanitized (body_isbn body), selection body),
      update_errors body)"
  by (simp add: validate_book_def required_field_eq update_errors_def selection_def Let_def)

lemma bd_genre_submitted:
  "bd_genre (submitted_book cast doc_id body)
   = (case cast_array cast (selection body) of None \<Rightarrow> [] | Some ids \<Rightarrow> ids)"
  by (simp add: submitted_book_def new_Book_def)

lemma book_create_post_invalid:
  "create_errors body \<noteq> [] \<Longrightarrow>
   book_create_post cast new_id body s =
     (s, [Render ''book_form''
            (Book_form_locals ''Create Book'' (authors s)
               (mark_checked (bd_genre (submitted_book cast (Some new_id) body)) (find_genres s) 0)
               (submitted_book cast (Some new_id) body) (create_errors body))])"
  by (simp add: book_create_post_def validate_book_create submitted_book_def Let_def)

lemma book_update_post_invalid:
  "update_errors body \<noteq> [] \<Longrightarrow>
   book_update_post cast unset_id params_id body s =
     (s, [Render ''book_form''
            (Book_form_locals ''Update Book'' (authors s)
               (mark_checked (bd_genre (submitted_book cast (given_id cast unset_id params_id) body))
                  (find_genres s) 0)
               (submitted_book cast (given_id cast unset_id params_id) body) (update_errors body))])"
  by (simp add: book_update_post_def validate_book_update submitted_book_def Let_def)

lemma genre_create_post_invalid:
  "trim raw_name = [] \<Longrightarrow>
   genre_create_post new_id raw_name s =
     (s, [Render ''genre_form''
            (Genre_form_locals ''Create Genre'' \<lparr>gd_id = Some new_id, gd_name = sanitized raw_name\<rparr>
               [\<lparr>param = ''name'', msg = ''Genre name required''\<rparr>])])"
  by (simp add: genre_create_post_def required_field_eq field_errors_def Let_def)

lemma genre_update_post_invalid:
  "trim raw_name = [] \<Longrightarrow>
   genre_update_post cast unset_id params_id raw_name s =
     (s, [Render ''genre_form''
            (Genre_form_locals ''Update Genre''
               \<lparr>gd_id = given_id cast unset_id params_id, gd_name = sanitized raw_name\<rparr>
               [\<lparr>param = ''name'', msg = ''Genre name required''\<rparr>])])"
  by (simp add: genre_update_post_def required_field_eq field_errors_def Let_def)

lemma genre_create_post_valid:
  "trim raw_name \<noteq> [] \<Longrightarrow>
   genre_create_post new_id raw_name s =
     (case List.find (\<lambda>g. name g = sanitized raw_name) (genres s) of
        Some found_genre \<Rightarrow> (s, [Redirect (genre_url (genre_id found_genre))])
      | None \<Rightarrow>
          (case save genre_id \<lparr>genre_id = new_id, name = sanitized raw_name\<rparr> (genres s) of
             Inl err \<Rightarrow> (s, [Next_error err])
           | Inr docs \<Rightarrow> (s\<lparr>genres := docs\<rparr>, [Redirect (genre_url new_id)])))"
  by (simp add: genre_create_post_def required_field_eq field_errors_def Let_def)


lemma update_errors_Nil:
  "trim (body_title body) \<noteq> [] \<Longrightarrow> trim (body_author body) \<noteq> [] \<Longrightarrow>
   trim (body_summary body) \<noteq> [] \<Longrightarrow> trim (body_isbn body) \<noteq> [] \<Longrightarrow> update_errors body = []"
  by (simp add: update_errors_def field_errors_def)

lemma book_update_post_valid:
  "update_errors body = [] \<Longrightarrow> cast params_id = Some i \<Longrightarrow>
   book_update_post cast unset_id params_id body s =
     (case findById book_id i (books s) of
        None \<Rightarrow> (s\<lparr>books := update_first (\<lambda>d. book_id d = i)
                   (set_book_fields (submitted_book cast (Some i) body)) (books s)\<rparr>,
                 [Uncaught TypeError])
      | Some old_book \<Rightarrow>
          (s\<lparr>books := update_first (\<lambda>d. book_id d = i)
                   (set_book_fields (submitted_book cast (Some i) body)) (books s)\<rparr>,
           [Redirect (book_url (book_id old_book))]))"
  by (simp add: book_update_post_def validate_book_update Let_def findByIdAndUpdate_def
      submitted_book_def given_id_def split: option.splits)

lemma book_update_post_malformed:
  "update_errors body = [] \<Longrightarrow> cast params_id = None \<Longrightarrow>
   book_update_post cast unset_id params_id body s = (s, [Next_error Cast_error])"
  by (simp add: book_update_post_def validate_book_update Let_def)

section \<open>Lookups after an update\<close>



lemma update_first_absent: "List.find p docs = None \<Longrightarrow> update_first p f docs = docs"
  by (induction docs) (auto split: if_splits)

lemma findById_key: "findById key i docs = Some d \<Longrightarrow> key d = i \<and> d \<in> set docs"
  unfolding findById_def by (induction docs) (auto split: if_splits)

lemma findById_None_iff: "findById key i docs = None \<longleftrightarrow> i \<notin> key ` set docs"
  unfolding findById_def by (auto simp: find_None_iff)

lemma cast_catalogue:
  "cast_hex24 (js fantasy_id) = Some fantasy_id" "cast_hex24 (js poetry_id) = Some poetry_id"
  "cast_hex24 (js unused_genre_id) = Some unused_genre_id" "cast_hex24 (js dune_id) = Some dune_id"
  "cast_hex24 (js unused_book_id) = Some unused_book_id" "cast_hex24 (js herbert_id) = Some herbert_id"
  "cast_hex24 (js ''zzz'') = None"
  by (simp_all add: run_defs)

section \<open>Creating a genre\<close>

text \<open>
  Claim C3. Take a Genre create POST whose name passes validation, that is, is not
  empty after trimming. When the store holds a genre whose name equals the submitted
  name as sanitised (trimmed, then escaped), the store is unchanged and the response
  is a redirect to the detail URL of such a genre. When the store holds no genre of
  that name, and the identifier allocated for the new document is not in use, the
  store gains one genre with that identifier and the sanitised name, and the response
  is a redirect to the new genre's detail URL.
\<close>

theorem genre_create_post_by_name:
  assumes "trim raw_name \<noteq> []"
  shows "((\<exists>g \<in> set (genres s). name g = sanitized raw_name) \<longrightarrow>
            (\<exists>g \<in> set (genres s). name g = sanitized raw_name
               \<and> genre_create_post new_id raw_name s = (s, [Redirect (''/catalog/genre/'' @ genre_id g)])))
       \<and> ((\<forall>g \<in> set (genres s). name g \<noteq> sanitized raw_name) \<and> new_id \<notin> genre_id ` set (genres s) \<longrightarrow>
            genre_create_post new_id raw_name s =
              (s\<lparr>genres := genres s @ [\<lparr>genre_id = new_id, name = sanitized raw_name\<rparr>]\<rparr>,
               [Redirect (''/catalog/genre/'' @ new_id)]))"
proof (intro conjI impI)
  assume "\<exists>g \<in> set (genres s). name g = sanitized raw_name"
  then obtain g where g: "List.find (\<lambda>g. name g = sanitized raw_name) (genres s) = Some g"
    by (cases "List.find (\<lambda>g. name g = sanitized raw_name) (genres s)") (auto simp: find_None_iff)
  then have "g \<in> set (genres s)" and "name g = sanitized raw_name"
    by (auto simp: find_Some_iff)
  moreover have "genre_create_post new_id raw_name s = (s, [Redirect (''/catalog/genre/'' @ genre_id g)])"
    using assms g by (simp add: genre_create_post_valid genre_url_def)
  ultimately show "\<exists>g \<in> set (genres s). name g = sanitized raw_name
               \<and> genre_create_post new_id raw_name s = (s, [Redirect (''/catalog/genre/'' @ genre_id g)])"
    by blast
next
  assume a: "(\<forall>g \<in> set (genres s). name g \<noteq> sanitized raw_name) \<and> new_id \<notin> genre_id ` set (genres s)"
  then have "List.find (\<lambda>g. name g = sanitized raw_name) (genres s) = None"
    by (simp add: find_None_iff)
  then show "genre_create_post new_id raw_name s =
              (s\<lparr>genres := genres s @ [\<lparr>genre_id = new_id, name = sanitized raw_name\<rparr>]\<rparr>,
               [Redirect (''/catalog/genre/'' @ new_id)])"
    using assms a by (simp add: genre_create_post_valid save_def genre_url_def)
qed

text \<open>
  The first run submits \<open>Fantasy\<close> between a no-break space and an ideographic space,
  the second a name of two words that no genre of the catalogue has.
\<close>

theorem genre_create_post_by_name_witness:
  "genre_create_post scifi_id (0xA0 # js ''Fantasy'' @ [0x3000]) library =
     (library, [Redirect (''/catalog/genre/'' @ fantasy_id)])
   \<and> genre_create_post scifi_id (js '' Sci-Fi'') library =
       (library\<lparr>genres := genres library @ [\<lparr>genre_id = scifi_id, name = js ''Sci-Fi''\<rparr>]\<rparr>,
        [Redirect (''/catalog/genre/'' @ scifi_id)])"
  using genre_create_post_by_name [where raw_name = "0xA0 # js ''Fantasy'' @ [0x3000]" and s = library
      and new_id = scifi_id]
    genre_create_post_by_name [where raw_name = "js '' Sci-Fi''" and s = library and new_id = scifi_id]
  by (simp add: run_defs)

text \<open>A name that is a single no-break space is empty after trimming: the form comes back.\<close>

lemma genre_create_post_no_break_space:
  "genre_create_post scifi_id [0xA0] library =
     (library, [Render ''genre_form''
        (Genre_form_locals ''Create Genre'' \<lparr>gd_id = Some scifi_id, gd_name = []\<rparr>
           [\<lparr>param = ''name'', msg = ''Genre name required''\<rparr>])])"
  by (simp add: genre_create_post_invalid run_defs)

section \<open>Updating a genre or a book\<close>





text \<open>
  Claim C10. Take a Book update POST whose four required fields pass validation and
  whose path identifier casts to an identifier. When no book has that identifier,
  the update hands the callback no document, the handler's read of \<open>url\<close> throws a
  \<open>TypeError\<close> and the store is left as it was. When a book has the identifier, the
  handler redirects to its detail URL.
\<close>

theorem book_update_post_missing_book:
  assumes "trim (body_title body) \<noteq> []" and "trim (body_author body) \<noteq> []"
    and "trim (body_summary body) \<noteq> []" and "trim (body_isbn body) \<noteq> []"
    and "cast params_id = Some i"
  shows "(findById book_id i (books s) = None \<longrightarrow>
            fst (findByIdAndUpdate book_id i f (books s)) = None
            \<and> book_update_post cast unset_id params_id body s = (s, [Uncaught TypeError]))
       \<and> (findById book_id i (books s) \<noteq> None \<longrightarrow>
            snd (book_update_post cast unset_id params_id body s)
              = [Redirect (''/catalog/book/'' @ i)])"
proof (intro conjI impI)
  have valid: "update_errors body = []"
    using assms(1-4) by (rule update_errors_Nil)
  {
    assume absent: "findById book_id i (books s) = None"
    show "fst (findByIdAndUpdate book_id i f (books s)) = None"
      using absent by (simp add: findByIdAndUpdate_def)
    have "update_first (\<lambda>d. book_id d = i) (set_book_fields (submitted_book cast (Some i) body)) (books s)
        = books s"
      using absent by (intro update_first_absent) (simp add: findById_def)
    then show "book_update_post cast unset_id params_id body s = (s, [Uncaught TypeError])"
      using absent by (simp add: book_update_post_valid [where cast = cast and params_id = params_id and i = i,
          OF valid assms(5)])
  }
  {
    assume "findById book_id i (books s) \<noteq> None"
    then obtain old where old: "findById book_id i (books s) = Some old"
      by blast
    then have "book_id old = i"
      by (simp add: findById_key)
    then show "snd (book_update_post cast unset_id params_id body s)
        = [Redirect (''/catalog/book/'' @ i)]"
      using old by (simp add: book_update_post_valid [where cast = cast and params_id = params_id and i = i,
          OF valid assms(5)] book_url_def)
  }
qed

theorem book_update_post_missing_book_witness:
  "book_update_post cast_hex24 None (js unused_book_id) dune_body library
     = (library, [Uncaught TypeError])
   \<and> snd (book_update_post cast_hex24 None (js dune_id) dune_body library)
     = [Redirect (''/catalog/book/'' @ dune_id)]"
  using book_update_post_missing_book [where body = dune_body and cast = cast_hex24
      and params_id = "js unused_book_id" and i = unused_book_id and s = library and unset_id = None]
    book_update_post_missing_book [where body = dune_body and cast = cast_hex24
      and params_id = "js dune_id" and i = dune_id and s = library and unset_id = None]
    cast_catalogue
  by (simp add: run_defs findById_def)

section \<open>Forms that fail validation\<close>

lemma create_errors_nonempty:
  "trim (body_title body) = [] \<or> trim (body_author body) = []
     \<or> trim (body_summary body) = [] \<or> trim (body_isbn body) = [] \<Longrightarrow> create_errors body \<noteq> []"
  by (auto simp: create_errors_def field_errors_def)

lemma update_errors_nonempty:
  "trim (body_title body) = [] \<or> trim (body_author body) = []
     \<or> trim (body_summary body) = [] \<or> trim (body_isbn body) = [] \<Longrightarrow> update_errors body \<noteq> []"
  by (auto simp: update_errors_def field_errors_def)

text \<open>
  Claim C4. When a required field of a book (title, author, summary, ISBN) is empty
  after trimming, the create handler and the update handler each leave the store
  unchanged and render \<open>book_form\<close> once, with the document built from the sanitised
  body and with the errors of the validation chains; the errors hold, for each empty
  field, an entry whose \<open>param\<close> is the field and whose message names it. When the name
  of a genre is empty after trimming, the create handler and the update handler each
  leave the store unchanged and render \<open>genre_form\<close> once with the error entry of the
  field \<open>name\<close>. This holds whatever the path identifier, the author and the genre
  selection are, identifiers or not.
\<close>

theorem empty_required_field_rerenders_form:
  "(trim (body_title body) = [] \<or> trim (body_author body) = []
      \<or> trim (body_summary body) = [] \<or> trim (body_isbn body) = [] \<longrightarrow>
      (\<exists>reference_genres.
          book_create_post cast new_id body s =
            (s, [Render ''book_form''
                   (Book_form_locals ''Create Book'' (authors s) reference_genres
                      (submitted_book cast (Some new_id) body) (create_errors body))])
        \<and> book_update_post cast unset_id params_id body s =
            (s, [Render ''book_form''
                   (Book_form_locals ''Update Book'' (authors s) reference_genres
                      (submitted_book cast (given_id cast unset_id params_id) body)
                      (update_errors body))]))
      \<and> (trim (body_title body) = [] \<longrightarrow>
            \<lparr>param = ''title'', msg = ''Title must not be empty.''\<rparr> \<in> set (create_errors body)
          \<and> \<lparr>param = ''title'', msg = ''Title must not be empty''\<rparr> \<in> set (update_errors body))
      \<and> (trim (body_author body) = [] \<longrightarrow>
            \<lparr>param = ''author'', msg = ''Author must not be empty.''\<rparr> \<in> set (create_errors body)
          \<and> \<lparr>param = ''author'', msg = ''Author must not be empty''\<rparr> \<in> set (update_errors body))
      \<and> (trim (body_summary body) = [] \<longrightarrow>
            \<lparr>param = ''summary'', msg = ''Summary must not be empty''\<rparr> \<in> set (create_errors body)
          \<and> \<lparr>param = ''summary'', msg = ''Summary must not be empty''\<rparr> \<in> set (update_errors body))
      \<and> (trim (body_isbn body) = [] \<longrightarrow>
            \<lparr>param = ''isbn'', msg = ''ISBN must not be empty''\<rparr> \<in> set (create_errors body)
          \<and> \<lparr>param = ''isbn'', msg = ''ISBN must not be empty''\<rparr> \<in> set (update_errors body)))
   \<and> (trim raw_name = [] \<longrightarrow>
        genre_create_post new_id raw_name s =
          (s, [Render ''genre_form''
                 (Genre_form_locals ''Create Genre'' \<lparr>gd_id = Some new_id, gd_name = sanitized raw_name\<rparr>
                    [\<lparr>param = ''name'', msg = ''Genre name required''\<rparr>])])
      \<and> genre_update_post cast unset_id params_id raw_name s =
          (s, [Render ''genre_form''
                 (Genre_form_locals ''Update Genre''
                    \<lparr>gd_id = given_id cast unset_id params_id, gd_name = sanitized raw_name\<rparr>
                    [\<lparr>param = ''name'', msg = ''Genre name required''\<rparr>])]))"
proof (intro conjI impI)
  assume invalid: "trim (body_title body) = [] \<or> trim (body_author body) = []
      \<or> trim (body_summary body) = [] \<or> trim (body_isbn body) = []"
  show "\<exists>reference_genres.
          book_create_post cast new_id body s =
            (s, [Render ''book_form''
                   (Book_form_locals ''Create Book'' (authors s) reference_genres
                      (submitted_book cast (Some new_id) body) (create_errors body))])
        \<and> book_update_post cast unset_id params_id body s =
            (s, [Render ''book_form''
                   (Book_form_locals ''Update Book'' (authors s) reference_genres
                      (submitted_book cast (given_id cast unset_id params_id) body)
                      (update_errors body))])"
    using create_errors_nonempty [OF invalid] update_errors_nonempty [OF invalid]
    by (simp add: book_create_post_invalid book_update_post_invalid bd_genre_submitted)
qed (simp_all add: create_errors_def update_errors_def field_errors_def
    genre_create_post_invalid genre_update_post_invalid)

text \<open>
  The runs below submit a title of blanks, among them a no-break space, with an author
  that is not an identifier, and a genre name that is one ideographic space; the
  update of the genre has a path that is not an identifier.
\<close>

theorem empty_required_field_rerenders_form_witness:
  "fst (book_create_post cast_hex24 second_book_id
          (dune_body\<lparr>body_title := [0x20, 0xA0, 0x09], body_author := js ''zzz''\<rparr>) library) = library
   \<and> fst (book_update_post cast_hex24 None (js dune_id)
          (dune_body\<lparr>body_title := [0x20, 0xA0, 0x09], body_author := js ''zzz''\<rparr>) library) = library
   \<and> \<lparr>param = ''title'', msg = ''Title must not be empty.''\<rparr>
        \<in> set (create_errors (dune_body\<lparr>body_title := [0x20, 0xA0, 0x09], body_author := js ''zzz''\<rparr>))
   \<and> genre_create_post scifi_id [0x3000] library =
        (library, [Render ''genre_form'' (Genre_form_locals ''Create Genre''
           \<lparr>gd_id = Some scifi_id, gd_name = []\<rparr>
           [\<lparr>param = ''name'', msg = ''Genre name required''\<rparr>])])
   \<and> genre_update_post cast_hex24 None (js ''zzz'') [0x3000] library =
        (library, [Render ''genre_form'' (Genre_form_locals ''Update Genre''
           \<lparr>gd_id = None, gd_name = []\<rparr>
           [\<lparr>param = ''name'', msg = ''Genre name required''\<rparr>])])"
proof -
  let ?body = "dune_body\<lparr>body_title := [0x20, 0xA0, 0x09], body_author := js ''zzz''\<rparr>"
  have blank: "trim (body_title ?body) = []"
    by (simp add: trim_def is_space_def)
  have space: "trim [0x3000] = []"
    by (simp add: trim_def is_space_def)
  have books: "\<exists>reference_genres.
          book_create_post cast_hex24 second_book_id ?body library =
            (library, [Render ''book_form''
                   (Book_form_locals ''Create Book'' (authors library) reference_genres
                      (submitted_book cast_hex24 (Some second_book_id) ?body) (create_errors ?body))])
        \<and> book_update_post cast_hex24 None (js dune_id) ?body library =
            (library, [Render ''book_form''
                   (Book_form_locals ''Update Book'' (authors library) reference_genres
                      (submitted_book cast_hex24 (given_id cast_hex24 None (js dune_id)) ?body)
                      (update_errors ?body))])"
    and title: "\<lparr>param = ''title'', msg = ''Title must not be empty.''\<rparr> \<in> set (create_errors ?body)"
    using empty_required_field_rerenders_form [where cast = cast_hex24 and unset_id = None
      and body = ?body and raw_name = "[0x3000]" and new_id = second_book_id
      and params_id = "js dune_id" and s = library] blank
    by blast+
  have genres: "genre_create_post scifi_id [0x3000] library =
          (library, [Render ''genre_form''
                 (Genre_form_locals ''Create Genre'' \<lparr>gd_id = Some scifi_id, gd_name = sanitized [0x3000]\<rparr>
                    [\<lparr>param = ''name'', msg = ''Genre name required''\<rparr>])])"
    "genre_update_post cast_hex24 None (js ''zzz'') [0x3000] library =
          (library, [Render ''genre_form''
                 (Genre_form_locals ''Update Genre''
                    \<lparr>gd_id = given_id cast_hex24 None (js ''zzz''), gd_name = sanitized [0x3000]\<rparr>
                    [\<lparr>param = ''name'', msg = ''Genre name required''\<rparr>])])"
    using empty_required_field_rerenders_form [where cast = cast_hex24 and unset_id = None
      and body = ?body and raw_name = "[0x3000]" and new_id = scifi_id
      and params_id = "js ''zzz''" and s = library] space
    by blast+
  have name: "sanitized [0x3000] = []"
    by (simp add: sanitized_def escape_def space)
  have path: "given_id cast_hex24 None (js ''zzz'') = None"
    by (simp add: given_id_def cast_catalogue)
  from books obtain reference_genres where
    "book_create_post cast_hex24 second_book_id ?body library =
            (library, [Render ''book_form''
                   (Book_form_locals ''Create Book'' (authors library) reference_genres
                      (submitted_book cast_hex24 (Some second_book_id) ?body) (create_errors ?body))])"
    and "book_update_post cast_hex24 None (js dune_id) ?body library =
            (library, [Render ''book_form''
                   (Book_form_locals ''Update Book'' (authors library) reference_genres
                      (submitted_book cast_hex24 (given_id cast_hex24 None (js dune_id)) ?body)
                      (update_errors ?body))])"
    by blast
  then have "fst (book_create_post cast_hex24 second_book_id ?body library) = library"
    and "fst (book_update_post cast_hex24 None (js dune_id) ?body library) = library"
    by simp_all
  with title genres name path show ?thesis
    by simp
qed

section \<open>The loop that marks the selected genres\<close>






lemma checked_marked:
  "checked (marked ids \<lparr>item = g, checked = None\<rparr>)
   = (if genre_id g \<in> set ids then Some ''true'' else None)"
  by (simp add: marked_def)




section \<open>Deleting a genre\<close>

lemma find_remove_first_distinct:
  "distinct (map key docs) \<Longrightarrow> List.find (\<lambda>d. key d = i) (remove_first (\<lambda>d. key d = i) docs) = None"
  by (induction docs) (auto simp: find_None_iff image_iff)

lemma set_remove_first: "set (remove_first p docs) \<subseteq> set docs"
  by (induction docs) auto

text \<open>
  The confirmation page of a genre that exists: the handler renders \<open>genre_delete\<close>
  once, with the genre and the populated books whose genre array holds the identifier.
\<close>

theorem genre_delete_get_existing:
  assumes "cast params_id = Some i" and "findById genre_id i (genres s) = Some g"
  shows "genre_delete_get cast params_id s =
     (s, [Render ''genre_delete''
            (Genre_delete_locals ''Delete Genre'' (Some g)
               (map (populate s) (books_with_genre i (books s))))])"
  using assms by (simp add: genre_delete_get_def Let_def)

theorem genre_delete_get_existing_witness:
  "genre_delete_get cast_hex24 (js poetry_id) library =
     (library, [Render ''genre_delete''
        (Genre_delete_locals ''Delete Genre'' (Some \<lparr>genre_id = poetry_id, name = js ''Poetry''\<rparr>) [])])"
  using genre_delete_get_existing [where cast = cast_hex24 and params_id = "js poetry_id"
      and i = poetry_id and s = library and g = "\<lparr>genre_id = poetry_id, name = js ''Poetry''\<rparr>"]
    cast_catalogue
  by (simp add: library_def books_with_genre_def findById_def fantasy_id_def poetry_id_def)

lemma genre_delete_get_missing:
  "cast params_id = Some i \<Longrightarrow> findById genre_id i (genres s) = None \<Longrightarrow>
   genre_delete_get cast params_id s =
     (s, [Redirect ''/catalog/genres'',
          Render ''genre_delete''
            (Genre_delete_locals ''Delete Genre'' None
               (map (populate s) (books_with_genre i (books s))))])"
  by (simp add: genre_delete_get_def Let_def)

text \<open>
  Claim C7. On the catalogue, \<open>unused_genre_id\<close> resolves to no genre. The delete GET
  handler calls \<open>res.redirect\<close> with the genre listing page and then, since the branch
  does not return, calls \<open>res.render\<close> with the confirmation view and no genre.
\<close>

theorem genre_delete_get_missing_genre_renders:
  "findById genre_id unused_genre_id (genres library) = None
   \<and> genre_delete_get cast_hex24 (js unused_genre_id) library =
       (library, [Redirect ''/catalog/genres'',
                  Render ''genre_delete'' (Genre_delete_locals ''Delete Genre'' None [])])"
  by (simp add: genre_delete_get_def cast_catalogue)
    (simp add: library_def books_with_genre_def findById_def fantasy_id_def poetry_id_def
      unused_genre_id_def)

text \<open>
  A delete POST whose path identifier is referenced by a book: the store is left as
  it was, whatever the body carries, and the handler renders the confirmation view
  once with the genre and the populated referencing books.
\<close>

theorem genre_delete_post_blocked:
  assumes "cast params_id = Some i" and "books_with_genre i (books s) \<noteq> []"
  shows "genre_delete_post cast params_id body_genreid s =
     (s, [Render ''genre_delete''
            (Genre_delete_locals ''Delete Genre'' (findById genre_id i (genres s))
               (map (populate s) (books_with_genre i (books s))))])"
  using assms by (simp add: genre_delete_post_def Let_def)

theorem genre_delete_post_blocked_witness:
  "genre_delete_post cast_hex24 (js fantasy_id) (js fantasy_id) library =
     (library, [Render ''genre_delete''
        (Genre_delete_locals ''Delete Genre'' (Some \<lparr>genre_id = fantasy_id, name = js ''Fantasy''\<rparr>)
           [\<lparr>pb_id = dune_id, pb_title = js ''Dune'',
             pb_author = Some \<lparr>author_id = herbert_id, first_name = js ''Frank'',
                               family_name = js ''Herbert'',
                               date_of_birth = None, date_of_death = None\<rparr>,
             pb_summary = js ''Sand'', pb_isbn = js ''9780441013593'',
             pb_genre = [\<lparr>genre_id = fantasy_id, name = js ''Fantasy''\<rparr>]\<rparr>])])"
  using genre_delete_post_blocked [where cast = cast_hex24 and params_id = "js fantasy_id"
      and i = fantasy_id and body_genreid = "js fantasy_id" and s = library]
    cast_catalogue
  by (simp add: library_def books_with_genre_def findById_def populate_def List.map_filter_def)

text \<open>
  A delete POST whose body carries the path identifier, for a genre that no book
  references, in a store whose genre identifiers are distinct: the handler redirects
  to the genre listing page, a fetch by the identifier afterwards finds nothing, no
  genre is added and the books are left as they were.
\<close>

theorem genre_delete_post_same_identifier:
  assumes "cast params_id = Some i" and "books_with_genre i (books s) = []"
    and "distinct (map genre_id (genres s))"
  shows "snd (genre_delete_post cast params_id params_id s) = [Redirect ''/catalog/genres'']
       \<and> findById genre_id i (genres (fst (genre_delete_post cast params_id params_id s))) = None
       \<and> set (genres (fst (genre_delete_post cast params_id params_id s))) \<subseteq> set (genres s)
       \<and> books (fst (genre_delete_post cast params_id params_id s)) = books s"
  using assms
  by (simp add: genre_delete_post_def Let_def findByIdAndRemove_def findById_def
      find_remove_first_distinct set_remove_first)

theorem genre_delete_post_same_identifier_witness:
  "snd (genre_delete_post cast_hex24 (js poetry_id) (js poetry_id) library)
     = [Redirect ''/catalog/genres'']
   \<and> findById genre_id poetry_id
        (genres (fst (genre_delete_post cast_hex24 (js poetry_id) (js poetry_id) library))) = None"
  using genre_delete_post_same_identifier [where cast = cast_hex24 and params_id = "js poetry_id"
      and i = poetry_id and s = library]
    cast_catalogue
  by (simp add: library_def books_with_genre_def fantasy_id_def poetry_id_def)

text \<open>
  Claim C1. The catalogue is what the create handlers leave when they are run on a
  store that holds the author. In it, the book \<open>dune_id\<close> references the genre
  \<open>fantasy_id\<close> and no book references \<open>poetry_id\<close>. A delete POST whose path identifier
  is \<open>poetry_id\<close> and whose body carries \<open>fantasy_id\<close> passes the check on \<open>poetry_id\<close> and
  removes \<open>fantasy_id\<close>: afterwards a fetch of \<open>fantasy_id\<close> finds nothing, while the book
  still references it.
\<close>

theorem genre_delete_post_removes_referenced_genre:
  "fst (book_create_post cast_hex24 dune_id dune_body
          (fst (genre_create_post poetry_id (js ''Poetry'')
             (fst (genre_create_post fantasy_id (js ''Fantasy'')
                (library\<lparr>books := [], genres := []\<rparr>))))))
     = library
   \<and> books_with_genre fantasy_id (books library) \<noteq> []
   \<and> findById genre_id fantasy_id (genres library)
       = Some \<lparr>genre_id = fantasy_id, name = js ''Fantasy''\<rparr>
   \<and> genre_delete_post cast_hex24 (js poetry_id) (js fantasy_id) library =
        (library\<lparr>genres := [\<lparr>genre_id = poetry_id, name = js ''Poetry''\<rparr>]\<rparr>,
         [Redirect ''/catalog/genres''])
   \<and> findById genre_id fantasy_id
        (genres (fst (genre_delete_post cast_hex24 (js poetry_id) (js fantasy_id) library)))
       = None
   \<and> books_with_genre fantasy_id
        (books (fst (genre_delete_post cast_hex24 (js poetry_id) (js fantasy_id) library)))
       \<noteq> []"
proof -
  have names: "trim (js ''Fantasy'') = js ''Fantasy''" "trim (js ''Poetry'') = js ''Poetry''"
    "sanitized (js ''Fantasy'') = js ''Fantasy''" "sanitized (js ''Poetry'') = js ''Poetry''"
    by (simp_all add: run_defs)
  have differ: "js ''Fantasy'' \<noteq> js ''Poetry''"
    by (simp add: js_def)
  have nonempty: "trim (js ''Fantasy'') \<noteq> []" "trim (js ''Poetry'') \<noteq> []"
    by (simp_all add: run_defs)
  have g1: "genre_create_post fantasy_id (js ''Fantasy'') (library\<lparr>books := [], genres := []\<rparr>)
      = (library\<lparr>books := [], genres := [\<lparr>genre_id = fantasy_id, name = js ''Fantasy''\<rparr>]\<rparr>,
         [Redirect (genre_url fantasy_id)])"
    by (simp add: genre_create_post_valid [OF nonempty(1)] names(3) save_def)
  have g2: "genre_create_post poetry_id (js ''Poetry'')
        (library\<lparr>books := [], genres := [\<lparr>genre_id = fantasy_id, name = js ''Fantasy''\<rparr>]\<rparr>)
      = (library\<lparr>books := []\<rparr>, [Redirect (genre_url poetry_id)])"
    by (simp add: genre_create_post_valid [OF nonempty(2)] names(4) differ save_def library_def
        fantasy_id_def poetry_id_def)
  have doc: "submitted_book cast_hex24 (Some dune_id) dune_body =
      \<lparr>bd_id = Some dune_id, bd_title = js ''Dune'', bd_author = Some herbert_id,
        bd_summary = js ''Sand'', bd_isbn = js ''9780441013593'', bd_genre = [fantasy_id],
        bd_cast_errors = []\<rparr>"
    by (simp add: submitted_book_def new_Book_def cast_array_def run_defs)
  have errors: "create_errors dune_body = []"
    by (simp add: create_errors_def field_errors_def run_defs)
  have b1: "book_create_post cast_hex24 dune_id dune_body (library\<lparr>books := []\<rparr>)
      = (library, [Redirect (book_url dune_id)])"
    by (simp add: book_create_post_def validate_book_create errors Let_def
        doc [unfolded submitted_book_def] validated_book_def save_def)
      (simp add: library_def)
  have reached: "fst (book_create_post cast_hex24 dune_id dune_body
          (fst (genre_create_post poetry_id (js ''Poetry'')
             (fst (genre_create_post fantasy_id (js ''Fantasy'')
                (library\<lparr>books := [], genres := []\<rparr>))))))
     = library"
    by (simp add: g1 g2 b1)
  have post: "genre_delete_post cast_hex24 (js poetry_id) (js fantasy_id) library =
        (library\<lparr>genres := [\<lparr>genre_id = poetry_id, name = js ''Poetry''\<rparr>]\<rparr>,
         [Redirect ''/catalog/genres''])"
    by (simp add: genre_delete_post_def cast_catalogue)
      (simp add: library_def books_with_genre_def findByIdAndRemove_def fantasy_id_def poetry_id_def)
  have before: "books_with_genre fantasy_id (books library) \<noteq> []"
    "findById genre_id fantasy_id (genres library)
       = Some \<lparr>genre_id = fantasy_id, name = js ''Fantasy''\<rparr>"
    by (simp_all add: library_def books_with_genre_def findById_def)
  have after: "findById genre_id fantasy_id
        (genres (library\<lparr>genres := [\<lparr>genre_id = poetry_id, name = js ''Poetry''\<rparr>]\<rparr>)) = None"
    "books_with_genre fantasy_id
        (books (library\<lparr>genres := [\<lparr>genre_id = poetry_id, name = js ''Poetry''\<rparr>]\<rparr>)) \<noteq> []"
    by (simp_all add: library_def books_with_genre_def findById_def fantasy_id_def poetry_id_def)
  show ?thesis
    unfolding post using reached before after by simp
qed

text \<open>
  Claim C2. On the catalogue, no book references the genre \<open>poetry_id\<close>. A delete POST
  whose path identifier is \<open>poetry_id\<close> and whose body carries \<open>unused_genre_id\<close>, the
  identifier of no genre, redirects to the genre listing page and leaves the store as
  it was: \<open>poetry_id\<close> is still there.
\<close>

theorem genre_delete_post_keeps_unreferenced_genre:
  "books_with_genre poetry_id (books library) = []
   \<and> genre_delete_post cast_hex24 (js poetry_id) (js unused_genre_id) library
       = (library, [Redirect ''/catalog/genres''])
   \<and> findById genre_id poetry_id
        (genres (fst (genre_delete_post cast_hex24 (js poetry_id) (js unused_genre_id) library)))
        = Some \<lparr>genre_id = poetry_id, name = js ''Poetry''\<rparr>"
proof -
  have post: "genre_delete_post cast_hex24 (js poetry_id) (js unused_genre_id) library
       = (library, [Redirect ''/catalog/genres''])"
    by (simp add: genre_delete_post_def cast_catalogue)
      (simp add: library_def books_with_genre_def findByIdAndRemove_def fantasy_id_def
        poetry_id_def unused_genre_id_def)
  show ?thesis
    unfolding post
    by (simp add: library_def books_with_genre_def findById_def fantasy_id_def poetry_id_def)
qed

end
